theory Spec2Isabelle
  imports Complex_Main "HOL-Library.AList"
begin

section \<open>JavaScript values\<close>

text \<open>
  The client code only inspects its arguments through three JavaScript operations:
  truthiness (the \<^verbatim>\<open>||\<close> operator), \<^verbatim>\<open>instanceof Function\<close> and strict
  equality with \<^verbatim>\<open>undefined\<close>. The value model keeps what these operations can
  tell apart. A number is NaN, an infinity or a finite value (the two zeros are one value:
  both are falsy). An object is the list of its own enumerable data properties in creation
  order; a function is an opaque identity. Objects are compared by content, not by
  reference, in this part of the model; the module file, where aliasing matters, gets an
  explicit store below.
\<close>

datatype jsnum = JNaN | JInf bool | JFin rat

datatype prim = PUndefined | PNull | PBool bool | PNum jsnum | PStr string

datatype jsval =
    JPrim prim
  | JFun nat
  | JArr "jsval list"
  | JObj "(string \<times> jsval) list"

type_synonym props = "(string \<times> jsval) list"

abbreviation undefined_js :: jsval where
  "undefined_js \<equiv> JPrim PUndefined"

abbreviation empty_object :: jsval where
  "empty_object \<equiv> JObj []"

fun truthy_prim :: "prim \<Rightarrow> bool" where
  "truthy_prim PUndefined = False"
| "truthy_prim PNull = False"
| "truthy_prim (PBool b) = b"
| "truthy_prim (PNum JNaN) = False"
| "truthy_prim (PNum (JInf s)) = True"
| "truthy_prim (PNum (JFin q)) = (q \<noteq> 0)"
| "truthy_prim (PStr s) = (s \<noteq> [])"

fun truthy :: "jsval \<Rightarrow> bool" where
  "truthy (JPrim p) = truthy_prim p"
| "truthy (JFun f) = True"
| "truthy (JArr xs) = True"
| "truthy (JObj ps) = True"

text \<open>\<^verbatim>\<open>a || b\<close>: the left operand when it is truthy, the right one otherwise.\<close>

definition js_or :: "jsval \<Rightarrow> jsval \<Rightarrow> jsval" where
  "js_or a b = (if truthy a then a else b)"

text \<open>\<^verbatim>\<open>v instanceof Function\<close>.\<close>

fun instanceof_Function :: "jsval \<Rightarrow> bool" where
  "instanceof_Function (JFun f) = True"
| "instanceof_Function v = False"

text \<open>\<^verbatim>\<open>o.k\<close> on a property list: the value stored under the key, \<^verbatim>\<open>undefined\<close>
  when the key is absent.\<close>

definition get_prop :: "props \<Rightarrow> string \<Rightarrow> jsval" where
  "get_prop ps k = (case map_of ps k of None \<Rightarrow> undefined_js | Some v \<Rightarrow> v)"

text \<open>\<^verbatim>\<open>o.k = v\<close>: an existing key keeps its place, a new key goes last.\<close>

definition set_prop :: "(string \<times> 'v) list \<Rightarrow> string \<Rightarrow> 'v \<Rightarrow> (string \<times> 'v) list" where
  "set_prop ps k v = AList.update k v ps"

text \<open>\<^verbatim>\<open>Object.assign(target, source)\<close>: every own property of the source is
  written to the target, in the source's order.\<close>

definition object_assign ::
  "(string \<times> 'v) list \<Rightarrow> (string \<times> 'v) list \<Rightarrow> (string \<times> 'v) list" where
  "object_assign target source = fold (\<lambda>(k, v) t. set_prop t k v) source target"

datatype error = TypeError

section \<open>The service client\<close>

subsection \<open>The runtime library\<close>

text \<open>
  The client is glue over the \<^verbatim>\<open>google-gax\<close> runtime, which is not part of the
  repository. The runtime enters the model as a record of the functions the constructor
  calls, over abstract types: \<open>'p\<close> for the promise of a stub method, \<open>'s\<close> for the call
  settings of a method, \<open>'d\<close> for a long-running descriptor and \<open>'r\<close> for what an API call
  returns.
\<close>

record ('p, 's, 'd, 'r) gax_module =
  createStub :: "props \<Rightarrow> string \<Rightarrow> 'p"
  constructSettings :: "props \<Rightarrow> jsval \<Rightarrow> string \<Rightarrow> 's option"
  LongrunningDescriptor :: "props \<Rightarrow> 'd"
  createApiCall :: "'p \<Rightarrow> 's option \<Rightarrow> 'd option \<Rightarrow> jsval \<Rightarrow> jsval \<Rightarrow> jsval \<Rightarrow> 'r"

record ('d, 'r) client =
  descriptors_longrunning :: "(string \<times> 'd) list"
  innerApiCalls :: "(string \<times> (jsval \<Rightarrow> jsval \<Rightarrow> jsval \<Rightarrow> 'r)) list"

subsection \<open>Static getters\<close>

definition servicePath :: string where
  "servicePath = ''videointelligence.googleapis.com''"

definition apiEndpoint :: string where
  "apiEndpoint = ''videointelligence.googleapis.com''"

definition port :: jsval where
  "port = JPrim (PNum (JFin 443))"

definition scopes :: jsval where
  "scopes = JArr [JPrim (PStr ''https://www.googleapis.com/auth/cloud-platform'')]"

subsection \<open>The constructor\<close>

text \<open>
  The options argument is documented as an optional object: \<open>None\<close> is an omitted
  argument, \<open>Some ps\<close> an object with the own properties \<open>ps\<close>. \<open>isBrowser\<close> is the
  global flag the constructor reads.

  \<open>constructor_opts\<close> is the value of the local \<^verbatim>\<open>opts\<close> once the constructor has
  finished with it, that is the options object every runtime call receives:
  \<^verbatim>\<open>
    opts = opts || {};
    if (global.isBrowser) { opts.fallback = true; }
    const servicePath =
      opts.servicePath || opts.apiEndpoint || this.constructor.servicePath;
    opts = Object.assign(
      { clientConfig: {}, port: this.constructor.port, servicePath }, opts);
    opts.scopes = this.constructor.scopes;
  \<close>
\<close>

definition opts_or_empty :: "props option \<Rightarrow> props" where
  "opts_or_empty opts = (case opts of None \<Rightarrow> [] | Some ps \<Rightarrow> ps)"

definition opts_fallback :: "bool \<Rightarrow> props option \<Rightarrow> props" where
  "opts_fallback isBrowser opts =
     (let opts1 = opts_or_empty opts
      in if isBrowser then set_prop opts1 ''fallback'' (JPrim (PBool True)) else opts1)"

definition constructor_opts :: "bool \<Rightarrow> props option \<Rightarrow> props" where
  "constructor_opts isBrowser opts =
     (let opts2 = opts_fallback isBrowser opts;
          servicePath_local =
            js_or (get_prop opts2 ''servicePath'')
              (js_or (get_prop opts2 ''apiEndpoint'') (JPrim (PStr servicePath)));
          opts3 = object_assign
            [(''clientConfig'', empty_object),
             (''port'', port),
             (''servicePath'', servicePath_local)]
            opts2
      in set_prop opts3 ''scopes'' scopes)"

text \<open>
  \<^verbatim>\<open>const gaxModule = !global.isBrowser && opts.fallback ? gax.fallback : gax;\<close>
\<close>

definition select_gaxModule ::
  "('p, 's, 'd, 'r) gax_module \<Rightarrow> ('p, 's, 'd, 'r) gax_module \<Rightarrow> bool \<Rightarrow> props option
     \<Rightarrow> ('p, 's, 'd, 'r) gax_module" where
  "select_gaxModule gax gax_fallback isBrowser opts =
     (if \<not> isBrowser \<and> truthy (get_prop (opts_fallback isBrowser opts) ''fallback'')
      then gax_fallback else gax)"

definition videoIntelligenceServiceStubMethods :: "string list" where
  "videoIntelligenceServiceStubMethods = [''annotateVideo'']"

text \<open>
  The rest of the constructor: the long-running descriptor of \<^verbatim>\<open>annotateVideo\<close>, the
  default settings, and the loop over the stub methods that stores one API call per method
  name in \<^verbatim>\<open>this._innerApiCalls\<close>. \<^verbatim>\<open>defaults[methodName]\<close> and
  \<^verbatim>\<open>this._descriptors.longrunning[methodName]\<close> are \<^verbatim>\<open>undefined\<close> (here \<open>None\<close>)
  for a name that has no entry.
\<close>

definition constructor ::
  "('p, 's, 'd, 'r) gax_module \<Rightarrow> ('p, 's, 'd, 'r) gax_module \<Rightarrow> bool \<Rightarrow> props option
     \<Rightarrow> ('d, 'r) client" where
  "constructor gax gax_fallback isBrowser opts0 =
     (let gaxModule = select_gaxModule gax gax_fallback isBrowser opts0;
          opts = constructor_opts isBrowser opts0;
          longrunning = [(''annotateVideo'', LongrunningDescriptor gaxModule opts)];
          defaults = constructSettings gaxModule opts (get_prop opts ''clientConfig'')
      in \<lparr> descriptors_longrunning = longrunning,
           innerApiCalls =
             fold (\<lambda>methodName calls.
                     AList.update methodName
                       (createApiCall gaxModule
                          (createStub gaxModule opts methodName)
                          (defaults methodName)
                          (map_of longrunning methodName))
                       calls)
               videoIntelligenceServiceStubMethods [] \<rparr>)"

subsection \<open>annotateVideo\<close>

text \<open>
  \<^verbatim>\<open>
  annotateVideo(request, options, callback) {
    if (options instanceof Function && callback === undefined) {
      callback = options;
      options = {};
    }
    request = request || {};
    options = options || {};
    return this._innerApiCalls.annotateVideo(request, options, callback);
  }
  \<close>
  Calling a missing entry of \<^verbatim>\<open>_innerApiCalls\<close> is a \<^verbatim>\<open>TypeError\<close>.
\<close>

definition annotateVideo ::
  "('d, 'r) client \<Rightarrow> jsval \<Rightarrow> jsval \<Rightarrow> jsval \<Rightarrow> error + 'r" where
  "annotateVideo this request options callback =
     (let (options1, callback1) =
            (if instanceof_Function options \<and> callback = undefined_js
             then (empty_object, options)
             else (options, callback));
          request1 = js_or request empty_object;
          options2 = js_or options1 empty_object
      in case map_of (innerApiCalls this) ''annotateVideo'' of
           None \<Rightarrow> Inl TypeError
         | Some call \<Rightarrow> Inr (call request1 options2 callback1))"

section \<open>The package entry point\<close>

text \<open>
  \<^verbatim>\<open>src/index.js\<close> assigns properties to the very object that \<^verbatim>\<open>require('./v1')\<close>
  returned, so what it exports depends on aliasing. Objects therefore live in a store here:
  a value is a primitive or the address of an object, an object is its own properties and
  whether it has been frozen, and allocation takes the next unused address.
\<close>

datatype hval = HPrim prim | HRef nat

record hobj =
  hprops :: "(string \<times> hval) list"
  hfrozen :: bool

record store =
  objs :: "nat \<Rightarrow> hobj"
  next_addr :: nat

definition alloc :: "store \<Rightarrow> hobj \<Rightarrow> nat \<times> store" where
  "alloc s ob =
     (next_addr s, s\<lparr>objs := (objs s)(next_addr s := ob), next_addr := Suc (next_addr s)\<rparr>)"

text \<open>Reading a property of the object at an address.\<close>

definition heap_get :: "store \<Rightarrow> nat \<Rightarrow> string \<Rightarrow> hval" where
  "heap_get s a k =
     (case map_of (hprops (objs s a)) k of None \<Rightarrow> HPrim PUndefined | Some v \<Rightarrow> v)"

text \<open>Writing a property of the object at an address. The file is in strict mode, where
  a write to a frozen object is a \<^verbatim>\<open>TypeError\<close>.\<close>

definition heap_set :: "store \<Rightarrow> nat \<Rightarrow> string \<Rightarrow> hval \<Rightarrow> error + store" where
  "heap_set s a k v =
     (if hfrozen (objs s a) then Inl TypeError
      else Inr (s\<lparr>objs := (objs s)(a := (objs s a)\<lparr>hprops := set_prop (hprops (objs s a)) k v\<rparr>)\<rparr>))"

definition then_do :: "error + 'a \<Rightarrow> ('a \<Rightarrow> error + 'b) \<Rightarrow> error + 'b" where
  "then_do r f = (case r of Inl e \<Rightarrow> Inl e | Inr x \<Rightarrow> f x)"

text \<open>
  \<^verbatim>\<open>
  const gapic = Object.freeze({
    v1: require('./v1'), v1beta2: require('./v1beta2'), v1p1beta1: require('./v1p1beta1'),
    v1p2beta1: require('./v1p2beta1'), v1p3beta1: require('./v1p3beta1'),
  });
  module.exports = gapic.v1;
  module.exports.v1 = gapic.v1;
  module.exports.v1beta2 = gapic.v1beta2;
  module.exports.v1p1beta1 = gapic.v1p1beta1;
  module.exports.v1p2beta1 = gapic.v1p2beta1;
  module.exports.v1p3beta1 = gapic.v1p3beta1;
  module.exports.default = Object.assign({}, module.exports);
  \<close>
  The five version modules are not part of the sources at hand: \<open>require\<close> is a
  parameter that gives the value each module path exports, in a store that already holds
  the objects of those modules. The result is the final value of \<^verbatim>\<open>module.exports\<close>
  with the final store. The first property assignment fails with a \<^verbatim>\<open>TypeError\<close>
  when \<^verbatim>\<open>module.exports\<close> is a primitive (strict mode).
\<close>

definition index_js :: "(string \<Rightarrow> hval) \<Rightarrow> store \<Rightarrow> error + (hval \<times> store)" where
  "index_js require s0 =
     (let (gapic, s1) = alloc s0
            \<lparr> hprops = [(''v1'', require ''./v1''),
                        (''v1beta2'', require ''./v1beta2''),
                        (''v1p1beta1'', require ''./v1p1beta1''),
                        (''v1p2beta1'', require ''./v1p2beta1''),
                        (''v1p3beta1'', require ''./v1p3beta1'')],
              hfrozen = True \<rparr>;
          exports = heap_get s1 gapic ''v1''
      in case exports of
           HPrim p \<Rightarrow> Inl TypeError
         | HRef a \<Rightarrow>
             then_do (heap_set s1 a ''v1'' (heap_get s1 gapic ''v1'')) (\<lambda>s2.
             then_do (heap_set s2 a ''v1beta2'' (heap_get s2 gapic ''v1beta2'')) (\<lambda>s3.
             then_do (heap_set s3 a ''v1p1beta1'' (heap_get s3 gapic ''v1p1beta1'')) (\<lambda>s4.
             then_do (heap_set s4 a ''v1p2beta1'' (heap_get s4 gapic ''v1p2beta1'')) (\<lambda>s5.
             then_do (heap_set s5 a ''v1p3beta1'' (heap_get s5 gapic ''v1p3beta1'')) (\<lambda>s6.
               let (copy, s7) = alloc s6
                     \<lparr> hprops = object_assign [] (hprops (objs s6 a)), hfrozen = False \<rparr>
               in then_do (heap_set s7 a ''default'' (HRef copy)) (\<lambda>s8.
                    Inr (exports, s8))))))))"

section \<open>The endpoint defaults as the specification words them\<close>

text \<open>
  The specification's sentence on the effective service path, read literally: the
  caller's \<^verbatim>\<open>servicePath\<close> if the options have one, otherwise the caller's
  \<^verbatim>\<open>apiEndpoint\<close> if the options have one, otherwise the default. It is compared
  with \<open>constructor_opts\<close> below.
\<close>

definition spec_servicePath :: "props \<Rightarrow> jsval" where
  "spec_servicePath ps =
     (case map_of ps ''servicePath'' of
        Some v \<Rightarrow> v
      | None \<Rightarrow>
          (case map_of ps ''apiEndpoint'' of
             Some v \<Rightarrow> v
           | None \<Rightarrow> JPrim (PStr servicePath)))"

text \<open>
  The same sentence with ``present'' read as ``has a truthy value'', for the service path
  and for the port.
\<close>

definition spec_servicePath_truthy :: "props \<Rightarrow> jsval" where
  "spec_servicePath_truthy ps =
     js_or (get_prop ps ''servicePath'')
       (js_or (get_prop ps ''apiEndpoint'') (JPrim (PStr servicePath)))"

definition spec_port_truthy :: "props \<Rightarrow> jsval" where
  "spec_port_truthy ps = js_or (get_prop ps ''port'') port"

section \<open>Concrete inputs\<close>

text \<open>A runtime whose API calls return the three arguments they were given.\<close>

definition echo_gax :: "(string, unit, unit, jsval \<times> jsval \<times> jsval) gax_module" where
  "echo_gax =
     \<lparr> createStub = (\<lambda>opts methodName. methodName),
       constructSettings = (\<lambda>opts clientConfig methodName. None),
       LongrunningDescriptor = (\<lambda>opts. ()),
       createApiCall = (\<lambda>p s d request options callback. (request, options, callback)) \<rparr>"

definition cat_request :: jsval where
  "cat_request =
     JObj [(''inputUri'', JPrim (PStr ''gs://cloud-samples-data/video/cat.mp4'')),
           (''features'', JArr [JPrim (PStr ''LABEL_DETECTION'')])]"

definition timeout_options :: jsval where
  "timeout_options = JObj [(''timeout'', JPrim (PNum (JFin 1000)))]"

definition custom_opts :: props where
  "custom_opts =
     [(''apiEndpoint'', JPrim (PStr ''eu.example.test'')),
      (''port'', JPrim (PNum (JFin 8443)))]"

text \<open>A store with one object per version module, at the addresses 0 to 4.\<close>

definition version_store :: store where
  "version_store =
     \<lparr> objs = (\<lambda>a. \<lparr> hprops = [(''VideoIntelligenceServiceClient'', HRef (a + 5))],
                       hfrozen = False \<rparr>),
       next_addr = 10 \<rparr>"

definition version_require :: "string \<Rightarrow> hval" where
  "version_require path =
     (if path = ''./v1'' then HRef 0
      else if path = ''./v1beta2'' then HRef 1
      else if path = ''./v1p1beta1'' then HRef 2
      else if path = ''./v1p2beta1'' then HRef 3
      else if path = ''./v1p3beta1'' then HRef 4
      else HPrim PUndefined)"

section \<open>Property lists\<close>

lemma map_of_set_prop: "map_of (set_prop ps k v) = (map_of ps)(k \<mapsto> v)"
  by (simp add: set_prop_def update_conv')

lemma distinct_set_prop: "distinct (map fst ps) \<Longrightarrow> distinct (map fst (set_prop ps k v))"
  by (simp add: set_prop_def distinct_update)

lemma get_prop_set_prop:
  "get_prop (set_prop ps k v) k' = (if k' = k then v else get_prop ps k')"
  by (simp add: get_prop_def map_of_set_prop)

text \<open>Reading the result of \<open>object_assign\<close>: the source's value where the source has
  the key, the target's otherwise.\<close>

lemma map_of_object_assign:
  "distinct (map fst source) \<Longrightarrow>
   map_of (object_assign target source) k =
     (case map_of source k of None \<Rightarrow> map_of target k | Some v \<Rightarrow> Some v)"
proof (induction source arbitrary: target)
  case Nil
  then show ?case by (simp add: object_assign_def)
next
  case (Cons p source)
  obtain k' v' where p: "p = (k', v')" by (cases p)
  from Cons.prems have d: "distinct (map fst source)" and nin: "k' \<notin> fst ` set source"
    by (auto simp: p)
  have "object_assign target (p # source) = object_assign (set_prop target k' v') source"
    by (simp add: object_assign_def p)
  then have "map_of (object_assign target (p # source)) k =
      (case map_of source k of None \<Rightarrow> map_of (set_prop target k' v') k | Some v \<Rightarrow> Some v)"
    using Cons.IH [OF d] by simp
  also have "\<dots> = (case map_of (p # source) k of None \<Rightarrow> map_of target k | Some v \<Rightarrow> Some v)"
  proof (cases "k = k'")
    case True
    with nin have "map_of source k = None" by (simp add: map_of_eq_None_iff)
    with True show ?thesis by (simp add: p map_of_set_prop)
  next
    case False
    then show ?thesis by (simp add: p map_of_set_prop split: option.splits)
  qed
  finally show ?case .
qed

section \<open>Properties of the client\<close>

lemma innerApiCalls_constructor:
  "innerApiCalls (constructor gax gax_fallback isBrowser opts0) =
     [(''annotateVideo'',
       createApiCall (select_gaxModule gax gax_fallback isBrowser opts0)
         (createStub (select_gaxModule gax gax_fallback isBrowser opts0)
            (constructor_opts isBrowser opts0) ''annotateVideo'')
         (constructSettings (select_gaxModule gax gax_fallback isBrowser opts0)
            (constructor_opts isBrowser opts0)
            (get_prop (constructor_opts isBrowser opts0) ''clientConfig'')
            ''annotateVideo'')
         (Some (LongrunningDescriptor (select_gaxModule gax gax_fallback isBrowser opts0)
            (constructor_opts isBrowser opts0))))]"
  by (simp add: constructor_def videoIntelligenceServiceStubMethods_def Let_def)

lemma annotateVideo_forward:
  "map_of (innerApiCalls this) ''annotateVideo'' = Some call \<Longrightarrow>
   annotateVideo this request options callback =
     Inr (call (js_or request empty_object)
            (js_or (if instanceof_Function options \<and> callback = undefined_js
                    then empty_object else options) empty_object)
            (if instanceof_Function options \<and> callback = undefined_js
             then options else callback))"
  by (simp add: annotateVideo_def Let_def)

lemma map_of_opts_fallback:
  "k \<noteq> ''fallback'' \<Longrightarrow>
   map_of (opts_fallback isBrowser opts) k = map_of (opts_or_empty opts) k"
  by (simp add: opts_fallback_def Let_def map_of_set_prop)

lemma distinct_opts_fallback:
  "distinct (map fst (opts_or_empty opts)) \<Longrightarrow>
   distinct (map fst (opts_fallback isBrowser opts))"
  by (simp add: opts_fallback_def Let_def distinct_set_prop)

section \<open>The claims on the client\<close>

text \<open>
  Claim C1. \<^verbatim>\<open>annotateVideo\<close> is the only method the constructor wires up, and the
  method only forwards: on a constructed client it returns what the API call that the
  runtime built for \<^verbatim>\<open>annotateVideo\<close> returns on the defaulted arguments, and on any
  client whose \<^verbatim>\<open>_innerApiCalls.annotateVideo\<close> is \<open>call\<close>, arguments that need no
  defaulting reach \<open>call\<close> unchanged.
\<close>

theorem annotateVideo_only_forwards:
  "map fst (innerApiCalls (constructor gax gax_fallback isBrowser opts0)) = [''annotateVideo''] \<and>
   annotateVideo (constructor gax gax_fallback isBrowser opts0) request options callback =
     Inr (createApiCall (select_gaxModule gax gax_fallback isBrowser opts0)
            (createStub (select_gaxModule gax gax_fallback isBrowser opts0)
               (constructor_opts isBrowser opts0) ''annotateVideo'')
            (constructSettings (select_gaxModule gax gax_fallback isBrowser opts0)
               (constructor_opts isBrowser opts0)
               (get_prop (constructor_opts isBrowser opts0) ''clientConfig'')
               ''annotateVideo'')
            (Some (LongrunningDescriptor (select_gaxModule gax gax_fallback isBrowser opts0)
               (constructor_opts isBrowser opts0)))
            (js_or request empty_object)
            (js_or (if instanceof_Function options \<and> callback = undefined_js
                    then empty_object else options) empty_object)
            (if instanceof_Function options \<and> callback = undefined_js
             then options else callback)) \<and>
   (map_of (innerApiCalls this) ''annotateVideo'' = Some call \<longrightarrow>
    truthy request \<longrightarrow> truthy options \<longrightarrow>
    \<not> (instanceof_Function options \<and> callback = undefined_js) \<longrightarrow>
      annotateVideo this request options callback = Inr (call request options callback))"
proof (intro conjI impI)
  show "map fst (innerApiCalls (constructor gax gax_fallback isBrowser opts0)) = [''annotateVideo'']"
    by (simp add: innerApiCalls_constructor)
next
  show "annotateVideo (constructor gax gax_fallback isBrowser opts0) request options callback =
     Inr (createApiCall (select_gaxModule gax gax_fallback isBrowser opts0)
            (createStub (select_gaxModule gax gax_fallback isBrowser opts0)
               (constructor_opts isBrowser opts0) ''annotateVideo'')
            (constructSettings (select_gaxModule gax gax_fallback isBrowser opts0)
               (constructor_opts isBrowser opts0)
               (get_prop (constructor_opts isBrowser opts0) ''clientConfig'')
               ''annotateVideo'')
            (Some (LongrunningDescriptor (select_gaxModule gax gax_fallback isBrowser opts0)
               (constructor_opts isBrowser opts0)))
            (js_or request empty_object)
            (js_or (if instanceof_Function options \<and> callback = undefined_js
                    then empty_object else options) empty_object)
            (if instanceof_Function options \<and> callback = undefined_js
             then options else callback))"
    by (rule annotateVideo_forward) (simp add: innerApiCalls_constructor)
next
  assume "map_of (innerApiCalls this) ''annotateVideo'' = Some call"
    and "truthy request" and "truthy options"
    and "\<not> (instanceof_Function options \<and> callback = undefined_js)"
  then show "annotateVideo this request options callback = Inr (call request options callback)"
    by (auto simp add: annotateVideo_def Let_def js_or_def)
qed

theorem annotateVideo_only_forwards_witness:
  "truthy cat_request \<and> truthy timeout_options \<and>
   \<not> (instanceof_Function timeout_options \<and> JFun 1 = undefined_js) \<and>
   map_of (innerApiCalls (constructor echo_gax echo_gax False None)) ''annotateVideo'' =
     Some (\<lambda>request options callback. (request, options, callback)) \<and>
   map fst (innerApiCalls (constructor echo_gax echo_gax False None)) = [''annotateVideo''] \<and>
   annotateVideo (constructor echo_gax echo_gax False None) cat_request timeout_options (JFun 1) =
     Inr (cat_request, timeout_options, JFun 1)"
  using annotateVideo_only_forwards
    [of echo_gax echo_gax False None cat_request timeout_options "JFun 1"
        "constructor echo_gax echo_gax False None"
        "\<lambda>request options callback. (request, options, callback)"]
  by (simp add: innerApiCalls_constructor select_gaxModule_def echo_gax_def cat_request_def
      timeout_options_def js_or_def)

text \<open>
  Claim C9. With a function as second argument and no third argument,
  \<^verbatim>\<open>annotateVideo(request, f)\<close> is \<^verbatim>\<open>annotateVideo(request, {}, f)\<close>: the function is
  forwarded as the callback and the options are the empty object. A falsy request and
  falsy options are each replaced by the empty object before the call is forwarded.
\<close>

theorem annotateVideo_defaulting:
  assumes "map_of (innerApiCalls this) ''annotateVideo'' = Some call"
  shows "(instanceof_Function options \<longrightarrow>
           annotateVideo this request options undefined_js =
             annotateVideo this request empty_object options \<and>
           annotateVideo this request options undefined_js =
             Inr (call (js_or request empty_object) empty_object options)) \<and>
         (\<not> truthy request \<longrightarrow>
           annotateVideo this request options callback =
             annotateVideo this empty_object options callback) \<and>
         (\<not> truthy options \<longrightarrow>
           annotateVideo this request options callback =
             Inr (call (js_or request empty_object) empty_object callback))"
proof (intro conjI impI)
  assume f: "instanceof_Function options"
  then show "annotateVideo this request options undefined_js =
      Inr (call (js_or request empty_object) empty_object options)"
    using assms by (simp add: annotateVideo_forward js_or_def)
  then show "annotateVideo this request options undefined_js =
      annotateVideo this request empty_object options"
    using assms by (simp add: annotateVideo_forward js_or_def)
next
  assume "\<not> truthy request"
  then show "annotateVideo this request options callback =
      annotateVideo this empty_object options callback"
    using assms by (simp add: annotateVideo_forward js_or_def)
next
  assume "\<not> truthy options"
  then have "\<not> instanceof_Function options" by (cases options) simp_all
  with \<open>\<not> truthy options\<close> show "annotateVideo this request options callback =
      Inr (call (js_or request empty_object) empty_object callback)"
    using assms by (simp add: annotateVideo_forward js_or_def)
qed

theorem annotateVideo_defaulting_witness:
  "annotateVideo (constructor echo_gax echo_gax False None) (JPrim PNull) (JFun 1) undefined_js =
     Inr (empty_object, empty_object, JFun 1) \<and>
   annotateVideo (constructor echo_gax echo_gax False None) (JPrim PNull) (JFun 1) undefined_js =
     annotateVideo (constructor echo_gax echo_gax False None) (JPrim PNull) empty_object (JFun 1) \<and>
   annotateVideo (constructor echo_gax echo_gax False None) cat_request (JPrim PNull) (JFun 2) =
     Inr (cat_request, empty_object, JFun 2)"
proof -
  let ?c = "constructor echo_gax echo_gax False None"
  let ?call = "\<lambda>request options callback. (request, options, callback)"
  have h: "map_of (innerApiCalls ?c) ''annotateVideo'' = Some ?call"
    by (simp add: innerApiCalls_constructor select_gaxModule_def echo_gax_def)
  have f: "instanceof_Function (JFun 1)" by simp
  have n: "\<not> truthy (JPrim PNull)" by simp
  from annotateVideo_defaulting [OF h, of "JFun 1" "JPrim PNull" undefined_js] f
  have a: "annotateVideo ?c (JPrim PNull) (JFun 1) undefined_js =
             annotateVideo ?c (JPrim PNull) empty_object (JFun 1)"
    and b: "annotateVideo ?c (JPrim PNull) (JFun 1) undefined_js =
             Inr (js_or (JPrim PNull) empty_object, empty_object, JFun 1)"
    by blast+
  from annotateVideo_defaulting [OF h, of "JPrim PNull" cat_request "JFun 2"] n
  have c: "annotateVideo ?c cat_request (JPrim PNull) (JFun 2) =
             Inr (js_or cat_request empty_object, empty_object, JFun 2)"
    by blast
  have "js_or (JPrim PNull) empty_object = empty_object"
    and "js_or cat_request empty_object = cat_request"
    by (simp_all add: js_or_def cat_request_def)
  with a b c show ?thesis by simp
qed

text \<open>
  Claim C10, as the code has it. In the options the runtime receives, the service path is
  the caller's \<^verbatim>\<open>servicePath\<close> whenever the options object has that property; without
  it, it is the caller's \<^verbatim>\<open>apiEndpoint\<close> when that is truthy and the default
  \<^verbatim>\<open>videointelligence.googleapis.com\<close> otherwise. The port is the caller's
  \<^verbatim>\<open>port\<close> whenever the options object has that property and 443 otherwise. The
  options object has each property name once.
\<close>

theorem constructor_opts_endpoint:
  assumes "distinct (map fst (opts_or_empty opts))"
  shows "get_prop (constructor_opts isBrowser opts) ''servicePath'' =
           (case map_of (opts_or_empty opts) ''servicePath'' of
              Some v \<Rightarrow> v
            | None \<Rightarrow>
                js_or (get_prop (opts_or_empty opts) ''apiEndpoint'') (JPrim (PStr servicePath))) \<and>
         get_prop (constructor_opts isBrowser opts) ''port'' =
           (case map_of (opts_or_empty opts) ''port'' of
              Some v \<Rightarrow> v
            | None \<Rightarrow> port)"
proof -
  let ?o2 = "opts_fallback isBrowser opts"
  have d: "distinct (map fst ?o2)"
    using assms by (rule distinct_opts_fallback)
  have sp: "map_of ?o2 ''servicePath'' = map_of (opts_or_empty opts) ''servicePath''"
    by (simp add: map_of_opts_fallback)
  have ae: "map_of ?o2 ''apiEndpoint'' = map_of (opts_or_empty opts) ''apiEndpoint''"
    by (simp add: map_of_opts_fallback)
  have po: "map_of ?o2 ''port'' = map_of (opts_or_empty opts) ''port''"
    by (simp add: map_of_opts_fallback)
  show ?thesis
    by (simp add: constructor_opts_def Let_def get_prop_set_prop)
       (simp add: get_prop_def map_of_object_assign [OF d] sp ae po js_or_def
          split: option.splits)
qed

theorem constructor_opts_endpoint_witness:
  "distinct (map fst (opts_or_empty (Some custom_opts))) \<and>
   get_prop (constructor_opts False (Some custom_opts)) ''servicePath'' =
     JPrim (PStr ''eu.example.test'') \<and>
   get_prop (constructor_opts False (Some custom_opts)) ''port'' = JPrim (PNum (JFin 8443))"
proof -
  have d: "distinct (map fst (opts_or_empty (Some custom_opts)))"
    by (simp add: opts_or_empty_def custom_opts_def)
  show ?thesis
    using d constructor_opts_endpoint [OF d, of False]
    by (simp add: opts_or_empty_def custom_opts_def get_prop_def js_or_def)
qed

text \<open>
  The sentence of claim C10 as it is worded does not hold for every options object,
  whichever way ``present'' is read. Read as ``the object has the property'', an empty
  \<^verbatim>\<open>apiEndpoint\<close> should be the service path, and the code takes the default. Read as
  ``the value is truthy'', an empty \<^verbatim>\<open>servicePath\<close> should give way to the
  \<^verbatim>\<open>apiEndpoint\<close> and a port 0 to 443, and the code keeps the caller's values.
\<close>

theorem constructor_opts_endpoint_counterexample:
  "get_prop (constructor_opts False (Some [(''apiEndpoint'', JPrim (PStr ''''))])) ''servicePath''
     \<noteq> spec_servicePath [(''apiEndpoint'', JPrim (PStr ''''))] \<and>
   get_prop (constructor_opts False
       (Some [(''servicePath'', JPrim (PStr '''')),
              (''apiEndpoint'', JPrim (PStr ''eu.example.test''))])) ''servicePath''
     \<noteq> spec_servicePath_truthy
         [(''servicePath'', JPrim (PStr '''')),
          (''apiEndpoint'', JPrim (PStr ''eu.example.test''))] \<and>
   get_prop (constructor_opts False (Some [(''port'', JPrim (PNum (JFin 0)))])) ''port''
     \<noteq> spec_port_truthy [(''port'', JPrim (PNum (JFin 0)))]"
  by (simp add: constructor_opts_def opts_fallback_def opts_or_empty_def get_prop_def
      js_or_def object_assign_def set_prop_def spec_servicePath_def spec_servicePath_truthy_def
      spec_port_truthy_def servicePath_def port_def Let_def)

section \<open>The claim on the package entry point\<close>

text \<open>
  Claim C8. When \<^verbatim>\<open>require('./v1')\<close> is an object of the store that is not frozen,
  the entry point exports that very object, and afterwards its properties \<^verbatim>\<open>v1\<close>,
  \<^verbatim>\<open>v1beta2\<close>, \<^verbatim>\<open>v1p1beta1\<close>, \<^verbatim>\<open>v1p2beta1\<close> and \<^verbatim>\<open>v1p3beta1\<close> hold what the
  five version modules export.
\<close>

theorem index_js_exports:
  assumes "require ''./v1'' = HRef a" and "a < next_addr s" and "\<not> hfrozen (objs s a)"
  shows "\<exists>s'. index_js require s = Inr (require ''./v1'', s') \<and>
           heap_get s' a ''v1'' = require ''./v1'' \<and>
           heap_get s' a ''v1beta2'' = require ''./v1beta2'' \<and>
           heap_get s' a ''v1p1beta1'' = require ''./v1p1beta1'' \<and>
           heap_get s' a ''v1p2beta1'' = require ''./v1p2beta1'' \<and>
           heap_get s' a ''v1p3beta1'' = require ''./v1p3beta1''"
  using assms
  by (simp add: index_js_def alloc_def then_do_def heap_get_def heap_set_def map_of_set_prop
      Let_def)

theorem index_js_exports_witness:
  "\<exists>s'. index_js version_require version_store = Inr (HRef 0, s') \<and>
     heap_get s' 0 ''v1'' = HRef 0 \<and>
     heap_get s' 0 ''v1beta2'' = HRef 1 \<and>
     heap_get s' 0 ''v1p1beta1'' = HRef 2 \<and>
     heap_get s' 0 ''v1p2beta1'' = HRef 3 \<and>
     heap_get s' 0 ''v1p3beta1'' = HRef 4"
proof -
  have r: "version_require ''./v1'' = HRef 0" by (simp add: version_require_def)
  have n: "0 < next_addr version_store" by (simp add: version_store_def)
  have f: "\<not> hfrozen (objs version_store 0)" by (simp add: version_store_def)
  show ?thesis
    using index_js_exports [of version_require 0 version_store] r n f
    by (simp add: version_require_def)
qed

end
